theory Spec2Isabelle
  imports Main "HOL-Library.AList" "HOL-Library.Sublist"
begin

section \<open>The settings module \<open>pelicanconf.py\<close>\<close>

text \<open>
  The repository is one Python module, \<open>pelicanconf.py\<close>: a \<open>__future__\<close> import followed
  by eighteen assignments of literals to module-level names. Running the module fills its
  namespace; the site generator then reads the names it knows from that namespace.

  The module is embedded as it is written: a list of statements over literal expressions,
  an evaluator for the literals, and an interpreter that runs the statements in order on a
  namespace.
\<close>

subsection \<open>Values and literal expressions\<close>

text \<open>
  The values the module binds. With \<open>unicode_literals\<close> every string literal is a text
  string; all of them are ASCII here, so a \<open>string\<close> holds one \<open>char\<close> per code point.
  \<open>PyFeature\<close> is the object that a \<open>from __future__ import\<close> binds to the imported name.
\<close>

datatype pyval =
    PyNone
  | PyBool bool
  | PyInt int
  | PyStr string
  | PyTuple "pyval list"
  | PyList "pyval list"
  | PyFeature string

text \<open>
  The literal expressions on the right-hand sides. \<open>EStr\<close> carries the characters written
  between the quotes of the source, before escape sequences are decoded.
\<close>

datatype expr =
    ENone
  | ETrue
  | EFalse
  | EInt int
  | EStr string
  | ETuple "expr list"
  | EList "expr list"

datatype stmt =
    ImportFrom string string
  | Assign string expr

definition backslash :: char where
  "backslash = CHR 0x5C"

definition squote :: char where
  "squote = CHR 0x27"

definition dquote :: char where
  "dquote = CHR 0x22"

text \<open>
  Decoding of the body of a string literal. A backslash followed by a backslash or by a
  quote stands for that character. The other escape sequences of Python do not occur in
  the module; the decoder gives \<open>None\<close> on them (and on a backslash at the very end, which
  no literal can have), so that a result \<open>Some s\<close> is always the string Python builds.
\<close>

fun unescape :: "string \<Rightarrow> string option" where
  "unescape [] = Some []"
| "unescape [c] = (if c = backslash then None else Some [c])"
| "unescape (c # d # ds) =
     (if c = backslash
      then (if d = backslash \<or> d = squote \<or> d = dquote
            then map_option ((#) d) (unescape ds)
            else None)
      else map_option ((#) c) (unescape (d # ds)))"

fun eval :: "expr \<Rightarrow> pyval option" where
  "eval ENone = Some PyNone"
| "eval ETrue = Some (PyBool True)"
| "eval EFalse = Some (PyBool False)"
| "eval (EInt n) = Some (PyInt n)"
| "eval (EStr body) = map_option PyStr (unescape body)"
| "eval (ETuple es) = map_option PyTuple (those (map eval es))"
| "eval (EList es) = map_option PyList (those (map eval es))"

subsection \<open>Running the module\<close>

text \<open>
  The module namespace is a Python \<open>dict\<close>: a binding to a name that is already bound
  replaces the value where it stands, a binding to a new name is added at the end. That is
  \<open>AList.update\<close> on an association list.
\<close>

type_synonym namespace = "(string \<times> pyval) list"

fun exec :: "stmt \<Rightarrow> namespace \<Rightarrow> namespace option" where
  "exec (ImportFrom m n) ns = Some (AList.update n (PyFeature n) ns)"
| "exec (Assign n e) ns =
     (case eval e of
        None \<Rightarrow> None
      | Some v \<Rightarrow> Some (AList.update n v ns))"

fun exec_all :: "stmt list \<Rightarrow> namespace \<Rightarrow> namespace option" where
  "exec_all [] ns = Some ns"
| "exec_all (s # ss) ns =
     (case exec s ns of
        None \<Rightarrow> None
      | Some ns' \<Rightarrow> exec_all ss ns')"

fun target :: "stmt \<Rightarrow> string" where
  "target (ImportFrom m n) = n"
| "target (Assign n e) = n"

text \<open>
  The statements of \<open>pelicanconf.py\<close>, in source order. Comments (among them the
  commented-out \<open>SOCIAL\<close> setting) are not statements. \<open>SITENAME\<close> is written with double
  quotes, so its apostrophe stands unescaped; the first label of \<open>LINKS\<close> is written with
  single quotes and escapes its apostrophe.
\<close>

definition pelicanconf :: "stmt list" where
  "pelicanconf =
    [ImportFrom ''__future__'' ''unicode_literals'',
     Assign ''AUTHOR'' (EStr ''Daniil Baturin''),
     Assign ''SITENAME'' (EStr ''dmbaturin's blog''),
     Assign ''SITEURL'' (EStr ''https://blog.baturin.org''),
     Assign ''PATH'' (EStr ''content''),
     Assign ''TIMEZONE'' (EStr ''Etc/UTC''),
     Assign ''DEFAULT_LANG'' (EStr ''en''),
     Assign ''FEED_ALL_ATOM'' (EStr ''feeds/atom.xml''),
     Assign ''CATEGORY_FEED_ATOM'' (EStr ''feeds/%s.atom.xml''),
     Assign ''TRANSLATION_FEED_ATOM'' ENone,
     Assign ''AUTHOR_FEED_ATOM'' ENone,
     Assign ''AUTHOR_FEED_RSS'' ENone,
     Assign ''LINKS''
       (ETuple
         [ETuple [EStr (''dmbaturin'' @ [backslash, squote] @ ''s website''),
                  EStr ''http://baturin.org/''],
          ETuple [EStr ''VyOS project'', EStr ''https://www.vyos.io/'']]),
     Assign ''DEFAULT_PAGINATION'' (EInt 10),
     Assign ''RELATIVE_URLS'' ETrue,
     Assign ''STATIC_PATHS'' (EList [EStr ''images'']),
     Assign ''PIWIK_URL'' (EStr ''matomo.baturin.org''),
     Assign ''PIWIK_SITE_ID'' (EStr ''blog.baturin.org''),
     Assign ''DISQUS_SITENAME'' (EStr ''blog-baturin-org'')]"

text \<open>
  Loading the configuration runs the module. The argument is the namespace the interpreter
  hands to the module before its first statement (\<open>__name__\<close>, \<open>__file__\<close> and the like, or
  the bindings of an earlier run when the module is loaded again).
\<close>

definition load_config :: "namespace \<Rightarrow> namespace option" where
  "load_config ns = exec_all pelicanconf ns"

text \<open>Reading a field of the loaded record.\<close>

definition setting :: "namespace \<Rightarrow> string \<Rightarrow> pyval option" where
  "setting cfg k = map_of cfg k"

text \<open>The names the module binds, in source order.\<close>

definition bound_names :: "string list" where
  "bound_names = map target pelicanconf"

section \<open>The vocabulary of the specification\<close>

subsection \<open>String operations of Python\<close>

text \<open>\<open>py_in sub s\<close> is Python's \<open>sub in s\<close>: \<open>sub\<close> occurs in \<open>s\<close> as a contiguous run.\<close>

fun py_in :: "string \<Rightarrow> string \<Rightarrow> bool" where
  "py_in sub [] = (sub = [])"
| "py_in sub (c # cs) = (prefix sub (c # cs) \<or> py_in sub cs)"

text \<open>
  \<open>py_count sub s\<close> is Python's \<open>s.count(sub)\<close>: the number of occurrences of \<open>sub\<close> in
  \<open>s\<close> that do not overlap, found from the left; the empty string occurs once before every
  character and once at the end.
\<close>

function py_count :: "string \<Rightarrow> string \<Rightarrow> nat" where
  "py_count sub [] = (if sub = [] then 1 else 0)"
| "py_count sub (c # cs) =
     (if sub = [] then Suc (Suc (length cs))
      else if prefix sub (c # cs) then Suc (py_count sub (drop (length sub) (c # cs)))
      else py_count sub cs)"
  by pat_completeness auto
termination
  by (relation "measure (\<lambda>(sub, s). length s)") auto

text \<open>\<open>split_on d s\<close> is Python's \<open>s.split(d)\<close> for a one-character separator.\<close>

fun split_on :: "char \<Rightarrow> string \<Rightarrow> string list" where
  "split_on d [] = [[]]"
| "split_on d (c # cs) =
     (if c = d then [] # split_on d cs
      else (case split_on d cs of
              [] \<Rightarrow> [[c]]
            | w # ws \<Rightarrow> (c # w) # ws))"

subsection \<open>Syntax of URLs\<close>

text \<open>
  The specification speaks of a syntactically valid URL without giving a grammar. The one
  used here is the hierarchical form of RFC 3986 with a host name as authority:
  \<open>scheme://host[:port][/...]\<close>, where the scheme is a letter followed by letters, digits,
  \<open>+\<close>, \<open>-\<close> or \<open>.\<close>, the host is a dot-separated sequence of non-empty labels of letters,
  digits and inner hyphens, the port is a run of digits, and what follows the authority
  starts with \<open>/\<close> and uses only characters that RFC 3986 allows in a URI.
\<close>

definition is_alpha :: "char \<Rightarrow> bool" where
  "is_alpha c = (c \<in> set ''abcdefghijklmnopqrstuvwxyzABCDEFGHIJKLMNOPQRSTUVWXYZ'')"

definition is_digit :: "char \<Rightarrow> bool" where
  "is_digit c = (c \<in> set ''0123456789'')"

definition valid_scheme :: "string \<Rightarrow> bool" where
  "valid_scheme s =
     (case s of
        [] \<Rightarrow> False
      | c # cs \<Rightarrow>
          is_alpha c \<and> list_all (\<lambda>x. is_alpha x \<or> is_digit x \<or> x \<in> set ''+-.'') cs)"

definition valid_label :: "string \<Rightarrow> bool" where
  "valid_label l =
     (l \<noteq> [] \<and> list_all (\<lambda>x. is_alpha x \<or> is_digit x \<or> x = CHR ''-'') l
      \<and> \<not> prefix ''-'' l \<and> \<not> suffix ''-'' l)"

definition valid_host :: "string \<Rightarrow> bool" where
  "valid_host h = list_all valid_label (split_on CHR ''.'' h)"

definition valid_authority :: "string \<Rightarrow> bool" where
  "valid_authority a =
     (case split_on CHR '':'' a of
        [h] \<Rightarrow> valid_host h
      | [h, p] \<Rightarrow> valid_host h \<and> list_all is_digit p
      | _ \<Rightarrow> False)"

definition url_char :: "char \<Rightarrow> bool" where
  "url_char c =
     (is_alpha c \<or> is_digit c \<or> c \<in> set ''-._~:/?#@!$&()*+,;=%'' \<or> c = squote)"

definition valid_url :: "string \<Rightarrow> bool" where
  "valid_url u =
     (let scheme = takeWhile (\<lambda>c. c \<noteq> CHR '':'') u;
          rest = dropWhile (\<lambda>c. c \<noteq> CHR '':'') u;
          after = drop 3 rest;
          authority = takeWhile (\<lambda>c. c \<noteq> CHR ''/'') after;
          path = dropWhile (\<lambda>c. c \<noteq> CHR ''/'') after
      in valid_scheme scheme \<and> prefix ''://'' rest
         \<and> valid_authority authority \<and> list_all url_char path)"

subsection \<open>Shapes of setting values\<close>

text \<open>A field that is present and holds a non-empty string.\<close>

definition is_nonempty_str :: "pyval option \<Rightarrow> bool" where
  "is_nonempty_str r =
     (case r of
        Some (PyStr s) \<Rightarrow> s \<noteq> []
      | _ \<Rightarrow> False)"

text \<open>The required string fields that the specification lists.\<close>

definition required_fields :: "string list" where
  "required_fields = [''AUTHOR'', ''SITENAME'', ''SITEURL'', ''TIMEZONE'', ''DEFAULT_LANG'']"

text \<open>
  Feed settings are the names with \<open>FEED\<close> in them; the per-category ones start with
  \<open>CATEGORY_FEED\<close>. A feed setting is a path template or \<open>None\<close>; a per-category one, when
  it is a template, must have the \<open>%s\<close> that the category's name is substituted for.
\<close>

definition is_feed_name :: "string \<Rightarrow> bool" where
  "is_feed_name k = py_in ''FEED'' k"

definition is_category_feed :: "string \<Rightarrow> bool" where
  "is_category_feed k = prefix ''CATEGORY_FEED'' k"

definition is_template_or_none :: "pyval option \<Rightarrow> bool" where
  "is_template_or_none r =
     (case r of
        Some PyNone \<Rightarrow> True
      | Some (PyStr t) \<Rightarrow> True
      | _ \<Rightarrow> False)"

definition category_template_ok :: "pyval option \<Rightarrow> bool" where
  "category_template_ok r =
     (case r of
        Some PyNone \<Rightarrow> True
      | Some (PyStr t) \<Rightarrow> py_in ''%s'' t
      | _ \<Rightarrow> False)"

text \<open>A blogroll entry: a pair of a non-empty label and a valid URL.\<close>

definition link_ok :: "pyval \<Rightarrow> bool" where
  "link_ok v =
     (case v of
        PyTuple [PyStr label, PyStr url] \<Rightarrow> label \<noteq> [] \<and> valid_url url
      | _ \<Rightarrow> False)"

text \<open>The analytics settings are the ones of the Piwik service.\<close>

definition is_analytics_name :: "string \<Rightarrow> bool" where
  "is_analytics_name k = prefix ''PIWIK_'' k"

section \<open>What loading gives\<close>

text \<open>
  Running the module succeeds from every starting namespace, and these are the values of
  the names it binds.
\<close>

lemma load_config_settings:
  "\<exists>cfg. load_config ns = Some cfg
     \<and> setting cfg ''unicode_literals'' = Some (PyFeature ''unicode_literals'')
     \<and> setting cfg ''AUTHOR'' = Some (PyStr ''Daniil Baturin'')
     \<and> setting cfg ''SITENAME'' = Some (PyStr ''dmbaturin's blog'')
     \<and> setting cfg ''SITEURL'' = Some (PyStr ''https://blog.baturin.org'')
     \<and> setting cfg ''PATH'' = Some (PyStr ''content'')
     \<and> setting cfg ''TIMEZONE'' = Some (PyStr ''Etc/UTC'')
     \<and> setting cfg ''DEFAULT_LANG'' = Some (PyStr ''en'')
     \<and> setting cfg ''FEED_ALL_ATOM'' = Some (PyStr ''feeds/atom.xml'')
     \<and> setting cfg ''CATEGORY_FEED_ATOM'' = Some (PyStr ''feeds/%s.atom.xml'')
     \<and> setting cfg ''TRANSLATION_FEED_ATOM'' = Some PyNone
     \<and> setting cfg ''AUTHOR_FEED_ATOM'' = Some PyNone
     \<and> setting cfg ''AUTHOR_FEED_RSS'' = Some PyNone
     \<and> setting cfg ''LINKS'' = Some (PyTuple
           [PyTuple [PyStr ''dmbaturin's website'', PyStr ''http://baturin.org/''],
            PyTuple [PyStr ''VyOS project'', PyStr ''https://www.vyos.io/'']])
     \<and> setting cfg ''DEFAULT_PAGINATION'' = Some (PyInt 10)
     \<and> setting cfg ''RELATIVE_URLS'' = Some (PyBool True)
     \<and> setting cfg ''STATIC_PATHS'' = Some (PyList [PyStr ''images''])
     \<and> setting cfg ''PIWIK_URL'' = Some (PyStr ''matomo.baturin.org'')
     \<and> setting cfg ''PIWIK_SITE_ID'' = Some (PyStr ''blog.baturin.org'')
     \<and> setting cfg ''DISQUS_SITENAME'' = Some (PyStr ''blog-baturin-org'')"
  by (simp add: load_config_def pelicanconf_def backslash_def squote_def dquote_def
        setting_def update_conv')

lemma bound_names_eq:
  "bound_names =
     [''unicode_literals'', ''AUTHOR'', ''SITENAME'', ''SITEURL'', ''PATH'', ''TIMEZONE'',
      ''DEFAULT_LANG'', ''FEED_ALL_ATOM'', ''CATEGORY_FEED_ATOM'', ''TRANSLATION_FEED_ATOM'',
      ''AUTHOR_FEED_ATOM'', ''AUTHOR_FEED_RSS'', ''LINKS'', ''DEFAULT_PAGINATION'',
      ''RELATIVE_URLS'', ''STATIC_PATHS'', ''PIWIK_URL'', ''PIWIK_SITE_ID'',
      ''DISQUS_SITENAME'']"
  by (simp add: bound_names_def pelicanconf_def)

text \<open>
  A statement binds a value that does not depend on the namespace it runs in, so two runs
  of the same statements agree on every name they bind, and on every name on which the
  starting namespaces agreed.
\<close>

lemma exec_agree:
  assumes "exec s a = Some a'" and "exec s b = Some b'"
    and "k = target s \<or> map_of a k = map_of b k"
  shows "map_of a' k = map_of b' k"
  using assms by (cases s) (auto simp: update_conv' split: option.splits)

lemma exec_all_agree:
  assumes "exec_all p a = Some a'" and "exec_all p b = Some b'"
    and "k \<in> set (map target p) \<or> map_of a k = map_of b k"
  shows "map_of a' k = map_of b' k"
  using assms
proof (induction p arbitrary: a b)
  case Nil
  then show ?case by simp
next
  case (Cons s p)
  from Cons.prems(1) obtain a1 where a1: "exec s a = Some a1" "exec_all p a1 = Some a'"
    by (auto split: option.splits)
  from Cons.prems(2) obtain b1 where b1: "exec s b = Some b1" "exec_all p b1 = Some b'"
    by (auto split: option.splits)
  show ?case
  proof (cases "k \<in> set (map target p)")
    case True
    then show ?thesis using Cons.IH [OF a1(2) b1(2)] by blast
  next
    case False
    with Cons.prems(3) have "k = target s \<or> map_of a k = map_of b k" by auto
    then have "map_of a1 k = map_of b1 k" by (rule exec_agree [OF a1(1) b1(1)])
    then show ?thesis using Cons.IH [OF a1(2) b1(2)] by blast
  qed
qed

text \<open>Loading once more on top of a loaded namespace changes nothing.\<close>

lemma load_config_reload:
  assumes "load_config ns = Some cfg"
  shows "load_config cfg = Some cfg"
proof -
  from load_config_settings [of ns] assms
  have "map_of cfg ''unicode_literals'' = Some (PyFeature ''unicode_literals'')"
    and "map_of cfg ''AUTHOR'' = Some (PyStr ''Daniil Baturin'')"
    and "map_of cfg ''SITENAME'' = Some (PyStr ''dmbaturin's blog'')"
    and "map_of cfg ''SITEURL'' = Some (PyStr ''https://blog.baturin.org'')"
    and "map_of cfg ''PATH'' = Some (PyStr ''content'')"
    and "map_of cfg ''TIMEZONE'' = Some (PyStr ''Etc/UTC'')"
    and "map_of cfg ''DEFAULT_LANG'' = Some (PyStr ''en'')"
    and "map_of cfg ''FEED_ALL_ATOM'' = Some (PyStr ''feeds/atom.xml'')"
    and "map_of cfg ''CATEGORY_FEED_ATOM'' = Some (PyStr ''feeds/%s.atom.xml'')"
    and "map_of cfg ''TRANSLATION_FEED_ATOM'' = Some PyNone"
    and "map_of cfg ''AUTHOR_FEED_ATOM'' = Some PyNone"
    and "map_of cfg ''AUTHOR_FEED_RSS'' = Some PyNone"
    and "map_of cfg ''LINKS'' = Some (PyTuple
           [PyTuple [PyStr ''dmbaturin's website'', PyStr ''http://baturin.org/''],
            PyTuple [PyStr ''VyOS project'', PyStr ''https://www.vyos.io/'']])"
    and "map_of cfg ''DEFAULT_PAGINATION'' = Some (PyInt 10)"
    and "map_of cfg ''RELATIVE_URLS'' = Some (PyBool True)"
    and "map_of cfg ''STATIC_PATHS'' = Some (PyList [PyStr ''images''])"
    and "map_of cfg ''PIWIK_URL'' = Some (PyStr ''matomo.baturin.org'')"
    and "map_of cfg ''PIWIK_SITE_ID'' = Some (PyStr ''blog.baturin.org'')"
    and "map_of cfg ''DISQUS_SITENAME'' = Some (PyStr ''blog-baturin-org'')"
    by (simp_all add: setting_def)
  then show ?thesis
    by (simp add: load_config_def pelicanconf_def backslash_def squote_def dquote_def
          update_triv)
qed

text \<open>The URLs and host names that occur in the module.\<close>

lemma valid_url_baturin: "valid_url ''http://baturin.org/''"
  by (simp add: valid_url_def valid_scheme_def valid_authority_def valid_host_def
        valid_label_def is_alpha_def is_digit_def url_char_def squote_def
        suffix_to_prefix)

lemma valid_url_vyos: "valid_url ''https://www.vyos.io/''"
  by (simp add: valid_url_def valid_scheme_def valid_authority_def valid_host_def
        valid_label_def is_alpha_def is_digit_def url_char_def squote_def
        suffix_to_prefix)

lemma valid_url_siteurl: "valid_url ''https://blog.baturin.org''"
  by (simp add: valid_url_def valid_scheme_def valid_authority_def valid_host_def
        valid_label_def is_alpha_def is_digit_def url_char_def squote_def
        suffix_to_prefix)

lemma not_valid_url_matomo: "\<not> valid_url ''matomo.baturin.org''"
  by (simp add: valid_url_def)

lemma valid_host_matomo: "valid_host ''matomo.baturin.org''"
  by (simp add: valid_host_def valid_label_def is_alpha_def is_digit_def suffix_to_prefix)

section \<open>The claims of the specification\<close>

text \<open>
  \<^bold>\<open>C1\<close>. After loading the configuration, from whatever namespace the module starts with,
  each required string field (\<open>AUTHOR\<close>, \<open>SITENAME\<close>, \<open>SITEURL\<close>, \<open>TIMEZONE\<close>,
  \<open>DEFAULT_LANG\<close>) is present and holds a non-empty string.
\<close>

theorem required_fields_nonempty:
  "\<exists>cfg. load_config ns = Some cfg
     \<and> list_all (\<lambda>k. is_nonempty_str (setting cfg k)) required_fields"
proof -
  from load_config_settings [of ns] obtain cfg where "load_config ns = Some cfg"
    and "setting cfg ''AUTHOR'' = Some (PyStr ''Daniil Baturin'')"
    and "setting cfg ''SITENAME'' = Some (PyStr ''dmbaturin's blog'')"
    and "setting cfg ''SITEURL'' = Some (PyStr ''https://blog.baturin.org'')"
    and "setting cfg ''TIMEZONE'' = Some (PyStr ''Etc/UTC'')"
    and "setting cfg ''DEFAULT_LANG'' = Some (PyStr ''en'')"
    by blast
  then show ?thesis
    by (simp add: required_fields_def is_nonempty_str_def)
qed

text \<open>
  \<^bold>\<open>C2\<close>. \<open>DEFAULT_PAGINATION\<close> is an integer, it is strictly positive, and it is 10.
\<close>

theorem default_pagination_positive:
  "\<exists>cfg n. load_config ns = Some cfg
     \<and> setting cfg ''DEFAULT_PAGINATION'' = Some (PyInt n) \<and> 0 < n \<and> n = 10"
proof -
  from load_config_settings [of ns] obtain cfg where "load_config ns = Some cfg"
    and "setting cfg ''DEFAULT_PAGINATION'' = Some (PyInt 10)"
    by blast
  then show ?thesis by simp
qed

text \<open>
  \<^bold>\<open>C3\<close>. The module binds one per-category feed setting, \<open>CATEGORY_FEED_ATOM\<close>; it is
  enabled (a non-empty string), and every per-category feed setting that is enabled
  contains the placeholder \<open>%s\<close>.
\<close>

theorem category_feed_has_placeholder:
  "\<exists>cfg. load_config ns = Some cfg
     \<and> filter is_category_feed bound_names = [''CATEGORY_FEED_ATOM'']
     \<and> is_nonempty_str (setting cfg ''CATEGORY_FEED_ATOM'')
     \<and> list_all (\<lambda>k. category_template_ok (setting cfg k))
          (filter is_category_feed bound_names)"
proof -
  from load_config_settings [of ns] obtain cfg where cfg: "load_config ns = Some cfg"
    and cat: "setting cfg ''CATEGORY_FEED_ATOM'' = Some (PyStr ''feeds/%s.atom.xml'')"
    by blast
  have names: "filter is_category_feed bound_names = [''CATEGORY_FEED_ATOM'']"
    by (simp add: bound_names_eq is_category_feed_def)
  have "category_template_ok (setting cfg ''CATEGORY_FEED_ATOM'')"
    by (simp add: cat category_template_ok_def)
  moreover have "is_nonempty_str (setting cfg ''CATEGORY_FEED_ATOM'')"
    by (simp add: cat is_nonempty_str_def)
  ultimately show ?thesis using cfg names by simp
qed

text \<open>
  \<^bold>\<open>C4\<close>. The disabled feed kinds \<open>TRANSLATION_FEED_ATOM\<close>, \<open>AUTHOR_FEED_ATOM\<close> and
  \<open>AUTHOR_FEED_RSS\<close> hold \<open>None\<close>, and each of the five feed settings the module binds
  holds a path template string or \<open>None\<close>, nothing else.
\<close>

theorem disabled_feeds_are_none:
  "\<exists>cfg. load_config ns = Some cfg
     \<and> setting cfg ''TRANSLATION_FEED_ATOM'' = Some PyNone
     \<and> setting cfg ''AUTHOR_FEED_ATOM'' = Some PyNone
     \<and> setting cfg ''AUTHOR_FEED_RSS'' = Some PyNone
     \<and> filter is_feed_name bound_names =
         [''FEED_ALL_ATOM'', ''CATEGORY_FEED_ATOM'', ''TRANSLATION_FEED_ATOM'',
          ''AUTHOR_FEED_ATOM'', ''AUTHOR_FEED_RSS'']
     \<and> list_all (\<lambda>k. is_template_or_none (setting cfg k)) (filter is_feed_name bound_names)"
proof -
  from load_config_settings [of ns] obtain cfg where cfg: "load_config ns = Some cfg"
    and vals: "setting cfg ''FEED_ALL_ATOM'' = Some (PyStr ''feeds/atom.xml'')"
      "setting cfg ''CATEGORY_FEED_ATOM'' = Some (PyStr ''feeds/%s.atom.xml'')"
      "setting cfg ''TRANSLATION_FEED_ATOM'' = Some PyNone"
      "setting cfg ''AUTHOR_FEED_ATOM'' = Some PyNone"
      "setting cfg ''AUTHOR_FEED_RSS'' = Some PyNone"
    by blast
  have names: "filter is_feed_name bound_names =
         [''FEED_ALL_ATOM'', ''CATEGORY_FEED_ATOM'', ''TRANSLATION_FEED_ATOM'',
          ''AUTHOR_FEED_ATOM'', ''AUTHOR_FEED_RSS'']"
    by (simp add: bound_names_eq is_feed_name_def)
  have "list_all (\<lambda>k. is_template_or_none (setting cfg k)) (filter is_feed_name bound_names)"
    unfolding names by (simp add: vals is_template_or_none_def)
  then show ?thesis using cfg vals names by simp
qed

text \<open>
  \<^bold>\<open>C5\<close>. \<open>LINKS\<close> is a non-empty tuple, and each entry of it is a pair of a non-empty
  label and a syntactically valid URL.
\<close>

theorem blogroll_entries_valid:
  "\<exists>cfg es. load_config ns = Some cfg
     \<and> setting cfg ''LINKS'' = Some (PyTuple es) \<and> es \<noteq> [] \<and> list_all link_ok es"
proof -
  from load_config_settings [of ns] obtain cfg where cfg: "load_config ns = Some cfg"
    and links: "setting cfg ''LINKS'' = Some (PyTuple
           [PyTuple [PyStr ''dmbaturin's website'', PyStr ''http://baturin.org/''],
            PyTuple [PyStr ''VyOS project'', PyStr ''https://www.vyos.io/'']])"
    by blast
  have "link_ok (PyTuple [PyStr ''dmbaturin's website'', PyStr ''http://baturin.org/''])"
    by (simp add: link_ok_def valid_url_baturin)
  moreover have "link_ok (PyTuple [PyStr ''VyOS project'', PyStr ''https://www.vyos.io/''])"
    by (simp add: link_ok_def valid_url_vyos)
  ultimately show ?thesis using cfg links by simp
qed

text \<open>
  \<^bold>\<open>C6\<close>. Reading \<open>LINKS\<close> from the loaded configuration gives exactly the two pairs of the
  source, in source order: first \<open>dmbaturin's website\<close> with \<open>http://baturin.org/\<close>, then
  \<open>VyOS project\<close> with \<open>https://www.vyos.io/\<close>. The escaped apostrophe of the source has
  become a plain one.
\<close>

theorem blogroll_in_source_order:
  "\<exists>cfg. load_config ns = Some cfg
     \<and> setting cfg ''LINKS'' = Some (PyTuple
           [PyTuple [PyStr ''dmbaturin's website'', PyStr ''http://baturin.org/''],
            PyTuple [PyStr ''VyOS project'', PyStr ''https://www.vyos.io/'']])"
  using load_config_settings [of ns] by blast

text \<open>
  \<^bold>\<open>C7\<close>. Two loads of the configuration, from any two starting namespaces, both succeed
  and agree on every name the module binds; and loading again on top of a loaded
  namespace leaves it as it is.
\<close>

theorem load_config_deterministic:
  "\<exists>c1 c2. load_config ns1 = Some c1 \<and> load_config ns2 = Some c2
     \<and> map (setting c1) bound_names = map (setting c2) bound_names
     \<and> load_config c1 = Some c1"
proof -
  from load_config_settings [of ns1] obtain c1 where c1: "load_config ns1 = Some c1"
    by blast
  from load_config_settings [of ns2] obtain c2 where c2: "load_config ns2 = Some c2"
    by blast
  have "setting c1 k = setting c2 k" if "k \<in> set bound_names" for k
    unfolding setting_def
    using c1 c2 that exec_all_agree [of pelicanconf ns1 c1 ns2 c2 k]
    by (simp add: load_config_def bound_names_def)
  then have "map (setting c1) bound_names = map (setting c2) bound_names"
    by simp
  moreover have "load_config c1 = Some c1"
    using c1 by (rule load_config_reload)
  ultimately show ?thesis using c1 c2 by blast
qed

text \<open>
  \<^bold>\<open>C8\<close>, as amended. The module binds exactly two analytics settings, \<open>PIWIK_URL\<close> and
  \<open>PIWIK_SITE_ID\<close>, and the comments-service setting \<open>DISQUS_SITENAME\<close>; each holds a
  non-empty string; and \<open>PIWIK_URL\<close> holds a bare host name with no scheme (it has no
  colon at all).
\<close>

theorem analytics_and_comments_identifiers:
  "\<exists>cfg h. load_config ns = Some cfg
     \<and> filter is_analytics_name bound_names = [''PIWIK_URL'', ''PIWIK_SITE_ID'']
     \<and> list_all (\<lambda>k. is_nonempty_str (setting cfg k))
          [''PIWIK_URL'', ''PIWIK_SITE_ID'', ''DISQUS_SITENAME'']
     \<and> setting cfg ''PIWIK_URL'' = Some (PyStr h)
     \<and> valid_host h \<and> \<not> py_in '':'' h"
proof -
  from load_config_settings [of ns] obtain cfg where cfg: "load_config ns = Some cfg"
    and vals: "setting cfg ''PIWIK_URL'' = Some (PyStr ''matomo.baturin.org'')"
      "setting cfg ''PIWIK_SITE_ID'' = Some (PyStr ''blog.baturin.org'')"
      "setting cfg ''DISQUS_SITENAME'' = Some (PyStr ''blog-baturin-org'')"
    by blast
  have names: "filter is_analytics_name bound_names = [''PIWIK_URL'', ''PIWIK_SITE_ID'']"
    by (simp add: bound_names_eq is_analytics_name_def)
  have "\<not> py_in '':'' ''matomo.baturin.org''"
    by simp
  then show ?thesis
    using cfg vals names valid_host_matomo by (simp add: is_nonempty_str_def)
qed

text \<open>
  The claim C8 as first stated also says that the analytics service identifier is a URL.
  It is not: \<open>matomo.baturin.org\<close> has no scheme.
\<close>

theorem piwik_url_is_not_a_url:
  "\<not> (\<exists>cfg u. load_config [] = Some cfg
        \<and> setting cfg ''PIWIK_URL'' = Some (PyStr u) \<and> valid_url u)"
proof -
  from load_config_settings [of "[]"] obtain cfg where cfg: "load_config [] = Some cfg"
    and val: "setting cfg ''PIWIK_URL'' = Some (PyStr ''matomo.baturin.org'')"
    by blast
  then show ?thesis using not_valid_url_matomo by auto
qed

text \<open>
  \<^bold>\<open>C9\<close>. \<open>SITEURL\<close> is an absolute URL with the scheme \<open>https\<close> and does not end in a
  slash; joined to the feed path \<open>FEED_ALL_ATOM\<close> with one \<open>/\<close> it gives
  \<open>https://blog.baturin.org/feeds/atom.xml\<close>, whose only double slash is the scheme's.
\<close>

theorem siteurl_https_no_trailing_slash:
  "\<exists>cfg u p. load_config ns = Some cfg
     \<and> setting cfg ''SITEURL'' = Some (PyStr u)
     \<and> valid_url u \<and> prefix ''https://'' u \<and> \<not> suffix ''/'' u
     \<and> setting cfg ''FEED_ALL_ATOM'' = Some (PyStr p)
     \<and> u @ ''/'' @ p = ''https://blog.baturin.org/feeds/atom.xml''
     \<and> py_count ''//'' (u @ ''/'' @ p) = 1"
proof -
  from load_config_settings [of ns] obtain cfg where cfg: "load_config ns = Some cfg"
    and vals: "setting cfg ''SITEURL'' = Some (PyStr ''https://blog.baturin.org'')"
      "setting cfg ''FEED_ALL_ATOM'' = Some (PyStr ''feeds/atom.xml'')"
    by blast
  have "\<not> suffix ''/'' ''https://blog.baturin.org''"
    by (simp add: suffix_to_prefix)
  moreover have "py_count ''//'' (''https://blog.baturin.org'' @ ''/'' @ ''feeds/atom.xml'') = 1"
    by simp
  ultimately show ?thesis
    using cfg vals valid_url_siteurl by simp
qed

text \<open>
  \<^bold>\<open>C10\<close>. \<open>CATEGORY_FEED_ATOM\<close> contains exactly one \<open>%s\<close> (and no other percent sign),
  \<open>FEED_ALL_ATOM\<close> contains no \<open>%s\<close> (and no percent sign at all), neither begins with
  \<open>/\<close>, and these two are all the feed settings that are enabled.
\<close>

theorem feed_template_placeholders:
  "\<exists>cfg c a. load_config ns = Some cfg
     \<and> setting cfg ''CATEGORY_FEED_ATOM'' = Some (PyStr c)
     \<and> setting cfg ''FEED_ALL_ATOM'' = Some (PyStr a)
     \<and> py_count ''%s'' c = 1 \<and> py_count ''%'' c = 1
     \<and> py_count ''%s'' a = 0 \<and> py_count ''%'' a = 0
     \<and> \<not> prefix ''/'' c \<and> \<not> prefix ''/'' a
     \<and> filter (\<lambda>k. is_nonempty_str (setting cfg k)) (filter is_feed_name bound_names) =
         [''FEED_ALL_ATOM'', ''CATEGORY_FEED_ATOM'']"
proof -
  from load_config_settings [of ns] obtain cfg where cfg: "load_config ns = Some cfg"
    and vals: "setting cfg ''FEED_ALL_ATOM'' = Some (PyStr ''feeds/atom.xml'')"
      "setting cfg ''CATEGORY_FEED_ATOM'' = Some (PyStr ''feeds/%s.atom.xml'')"
      "setting cfg ''TRANSLATION_FEED_ATOM'' = Some PyNone"
      "setting cfg ''AUTHOR_FEED_ATOM'' = Some PyNone"
      "setting cfg ''AUTHOR_FEED_RSS'' = Some PyNone"
    by blast
  have names: "filter is_feed_name bound_names =
         [''FEED_ALL_ATOM'', ''CATEGORY_FEED_ATOM'', ''TRANSLATION_FEED_ATOM'',
          ''AUTHOR_FEED_ATOM'', ''AUTHOR_FEED_RSS'']"
    by (simp add: bound_names_eq is_feed_name_def)
  have enabled: "filter (\<lambda>k. is_nonempty_str (setting cfg k)) (filter is_feed_name bound_names)
      = [''FEED_ALL_ATOM'', ''CATEGORY_FEED_ATOM'']"
    unfolding names by (simp add: vals is_nonempty_str_def)
  have "py_count ''%s'' ''feeds/%s.atom.xml'' = 1" and "py_count ''%'' ''feeds/%s.atom.xml'' = 1"
    and "py_count ''%s'' ''feeds/atom.xml'' = 0" and "py_count ''%'' ''feeds/atom.xml'' = 0"
    by simp_all
  then show ?thesis
    using cfg vals enabled by simp
qed

end
